theory Spec2Isabelle
  imports Main "HOL-Library.Sublist"
begin

section \<open>Package analyzer: data model\<close>

text \<open>
  A shallow embedding of \<^verbatim>\<open>analyzer/analyzer.go\<close>.

  Go returns a value together with an \<^verbatim>\<open>error\<close>; the model returns the same pair,
  with \<open>None\<close> for a \<^verbatim>\<open>nil\<close> error. A value of a map or slice type that the code
  returns as \<^verbatim>\<open>nil\<close> is an \<open>option\<close> too, \<open>None\<close> being \<^verbatim>\<open>nil\<close>.

  The analyzers are interface values of the source; a record holds their two methods.
  \<^verbatim>\<open>Analyze\<close> is a function of the file map and \<^verbatim>\<open>RequiredFiles\<close> a constant list:
  the plug-ins are taken to be pure, so that calling one twice gives the same answer.
\<close>

type_synonym FilePath = string

text \<open>
  The \<^verbatim>\<open>error\<close> values this package can see: its two sentinels (each
  \<^verbatim>\<open>errors.New\<close> value is unequal to every other error), an error produced by a
  plug-in or by the extractor, \<^verbatim>\<open>errors.Wrap(err, message)\<close>, and
  \<^verbatim>\<open>xerrors.Errorf(format, err)\<close> whose format ends in \<^verbatim>\<open>%w\<close>.
\<close>

datatype error =
    ErrUnknownOS
  | ErrPkgAnalysis
  | Foreign string
  | Wrap error string
  | Errorf string error

datatype panic = NilPointerDereference

record OS =
  Name :: string
  Family :: string

record Package =
  Name :: string
  Version :: string
  Release :: string
  Epoch :: int
  Type :: string

text \<open>
  \<^verbatim>\<open>extractor.FileMap\<close> and \<^verbatim>\<open>types.Library\<close> are declared outside this package.
  The code never looks inside either, so both are type parameters: \<open>'fm\<close> is the
  content of a non-nil file map and \<open>'libs\<close> a value of type \<^verbatim>\<open>[]types.Library\<close>.
\<close>

type_synonym 'fm FileMap = "'fm option"

record 'fm OSAnalyzer =
  Analyze :: "'fm FileMap \<Rightarrow> OS \<times> error option"
  RequiredFiles :: "string list"

record 'fm PkgAnalyzer =
  Analyze :: "'fm FileMap \<Rightarrow> Package list option \<times> error option"
  RequiredFiles :: "string list"

record ('fm, 'libs) LibraryAnalyzer =
  Analyze :: "'fm FileMap \<Rightarrow> (FilePath \<rightharpoonup> 'libs) option \<times> error option"
  RequiredFiles :: "string list"

text \<open>The three package-level variables.\<close>

record ('fm, 'libs) globals =
  osAnalyzers :: "'fm OSAnalyzer list"
  pkgAnalyzers :: "'fm PkgAnalyzer list"
  libAnalyzers :: "('fm, 'libs) LibraryAnalyzer list"

section \<open>Registration\<close>

definition RegisterOSAnalyzer ::
  "'fm OSAnalyzer \<Rightarrow> ('fm, 'libs) globals \<Rightarrow> ('fm, 'libs) globals" where
  "RegisterOSAnalyzer analyzer g = g\<lparr>osAnalyzers := osAnalyzers g @ [analyzer]\<rparr>"

definition RegisterPkgAnalyzer ::
  "'fm PkgAnalyzer \<Rightarrow> ('fm, 'libs) globals \<Rightarrow> ('fm, 'libs) globals" where
  "RegisterPkgAnalyzer analyzer g = g\<lparr>pkgAnalyzers := pkgAnalyzers g @ [analyzer]\<rparr>"

definition RegisterLibraryAnalyzer ::
  "('fm, 'libs) LibraryAnalyzer \<Rightarrow> ('fm, 'libs) globals \<Rightarrow> ('fm, 'libs) globals" where
  "RegisterLibraryAnalyzer analyzer g = g\<lparr>libAnalyzers := libAnalyzers g @ [analyzer]\<rparr>"

text \<open>
  A sequence of registration calls, as made while the process starts. The other functions
  of the package take the variables and return no new value for them: they only read.
\<close>

datatype ('fm, 'libs) registration =
    RegOS "'fm OSAnalyzer"
  | RegPkg "'fm PkgAnalyzer"
  | RegLib "('fm, 'libs) LibraryAnalyzer"

fun register :: "('fm, 'libs) registration \<Rightarrow> ('fm, 'libs) globals \<Rightarrow> ('fm, 'libs) globals" where
  "register (RegOS analyzer) g = RegisterOSAnalyzer analyzer g"
| "register (RegPkg analyzer) g = RegisterPkgAnalyzer analyzer g"
| "register (RegLib analyzer) g = RegisterLibraryAnalyzer analyzer g"

section \<open>Required file names\<close>

text \<open>Each \<^verbatim>\<open>for\<close> loop appends to \<^verbatim>\<open>filenames\<close>, which starts empty.\<close>

definition RequiredFilenames :: "('fm, 'libs) globals \<Rightarrow> string list" where
  "RequiredFilenames g =
     (let filenames = [];
          filenames = fold (\<lambda>analyzer filenames. filenames @ OSAnalyzer.RequiredFiles analyzer)
                        (osAnalyzers g) filenames;
          filenames = fold (\<lambda>analyzer filenames. filenames @ PkgAnalyzer.RequiredFiles analyzer)
                        (pkgAnalyzers g) filenames;
          filenames = fold (\<lambda>analyzer filenames. filenames @ LibraryAnalyzer.RequiredFiles analyzer)
                        (libAnalyzers g) filenames
      in filenames)"

section \<open>Extraction\<close>

text \<open>
  The extractor lives in another package. Of \<^verbatim>\<open>extractor.DockerOption\<close> the code sets
  the field \<^verbatim>\<open>Timeout\<close> only, a \<^verbatim>\<open>time.Duration\<close> counted in nanoseconds (the
  constant \<^verbatim>\<open>600 * time.Second\<close> is far below the 64-bit limit); every other field
  stays at its zero value in both entry points. \<^verbatim>\<open>extractor.NewDockerExtractor\<close>
  is a parameter of the two entry points, and so are the types of the context and of the
  stream.
\<close>

record DockerOption =
  Timeout :: int

definition Second :: int where
  "Second = 1000000000"

record ('ctx, 'r, 'fm) DockerExtractor =
  Extract :: "'ctx \<Rightarrow> string \<Rightarrow> string list \<Rightarrow> 'fm FileMap \<times> error option"
  ExtractFromFile :: "'ctx \<Rightarrow> 'r \<Rightarrow> string list \<Rightarrow> 'fm FileMap \<times> error option"

definition Analyze ::
  "(DockerOption \<Rightarrow> ('ctx, 'r, 'fm) DockerExtractor) \<Rightarrow> ('fm, 'libs) globals \<Rightarrow>
     'ctx \<Rightarrow> string \<Rightarrow> 'fm FileMap \<times> error option" where
  "Analyze NewDockerExtractor g ctx imageName =
     (let e = NewDockerExtractor \<lparr>Timeout = 600 * Second\<rparr> in
      case Extract e ctx imageName (RequiredFilenames g) of
        (filesMap, Some err) \<Rightarrow> (None, Some (Wrap err ''Failed to extract files''))
      | (filesMap, None) \<Rightarrow> (filesMap, None))"

definition AnalyzeFromFile ::
  "(DockerOption \<Rightarrow> ('ctx, 'r, 'fm) DockerExtractor) \<Rightarrow> ('fm, 'libs) globals \<Rightarrow>
     'ctx \<Rightarrow> 'r \<Rightarrow> 'fm FileMap \<times> error option" where
  "AnalyzeFromFile NewDockerExtractor g ctx r =
     (let e = NewDockerExtractor \<lparr>Timeout = 0\<rparr> in
      case ExtractFromFile e ctx r (RequiredFilenames g) of
        (filesMap, Some err) \<Rightarrow> (None, Some (Wrap err ''Failed to extract files''))
      | (filesMap, None) \<Rightarrow> (filesMap, None))"

section \<open>Operating system and packages\<close>

fun GetOS_loop :: "'fm OSAnalyzer list \<Rightarrow> 'fm FileMap \<Rightarrow> OS \<times> error option" where
  "GetOS_loop [] filesMap = (\<lparr>OS.Name = '''', Family = ''''\<rparr>, Some ErrUnknownOS)"
| "GetOS_loop (analyzer # rest) filesMap =
     (case OSAnalyzer.Analyze analyzer filesMap of
        (os, Some err) \<Rightarrow> GetOS_loop rest filesMap
      | (os, None) \<Rightarrow> (os, None))"

definition GetOS :: "('fm, 'libs) globals \<Rightarrow> 'fm FileMap \<Rightarrow> OS \<times> error option" where
  "GetOS g filesMap = GetOS_loop (osAnalyzers g) filesMap"

fun GetPackages_loop ::
  "'fm PkgAnalyzer list \<Rightarrow> 'fm FileMap \<Rightarrow> Package list option \<times> error option" where
  "GetPackages_loop [] filesMap = (None, Some ErrUnknownOS)"
| "GetPackages_loop (analyzer # rest) filesMap =
     (case PkgAnalyzer.Analyze analyzer filesMap of
        (pkgs, Some err) \<Rightarrow> GetPackages_loop rest filesMap
      | (pkgs, None) \<Rightarrow> (pkgs, None))"

definition GetPackages ::
  "('fm, 'libs) globals \<Rightarrow> 'fm FileMap \<Rightarrow> Package list option \<times> error option" where
  "GetPackages g filesMap = GetPackages_loop (pkgAnalyzers g) filesMap"

text \<open>The argument is a pointer: dereferencing \<^verbatim>\<open>nil\<close> panics.\<close>

definition CheckPackage :: "Package option \<Rightarrow> panic + bool" where
  "CheckPackage pkg =
     (case pkg of
        None \<Rightarrow> Inl NilPointerDereference
      | Some p \<Rightarrow> Inr (Package.Name p \<noteq> '''' \<and> Package.Version p \<noteq> ''''))"

section \<open>Libraries\<close>

text \<open>
  \<^verbatim>\<open>for filePath, libs := range libMap\<close> visits every key of the map once, in an
  order the language leaves open and that may change from one loop to the next. The model
  takes the order as an argument: \<open>keys\<close> is the sequence in which the loop meets the
  keys. Ranging over a \<^verbatim>\<open>nil\<close> map runs the body zero times.
\<close>

definition range_assign ::
  "FilePath list \<Rightarrow> (FilePath \<rightharpoonup> 'libs) option \<Rightarrow> (FilePath \<rightharpoonup> 'libs) \<Rightarrow> (FilePath \<rightharpoonup> 'libs)" where
  "range_assign keys libMap results =
     (case libMap of
        None \<Rightarrow> results
      | Some m \<Rightarrow>
          fold (\<lambda>filePath results.
                  case m filePath of
                    None \<Rightarrow> results
                  | Some libs \<Rightarrow> results(filePath \<mapsto> libs))
               keys results)"

text \<open>
  \<open>order i\<close> is the order of the inner loop in iteration \<open>i\<close> of the outer loop.
\<close>

fun GetLibraries_loop ::
  "(nat \<Rightarrow> FilePath list) \<Rightarrow> nat \<Rightarrow> ('fm, 'libs) LibraryAnalyzer list \<Rightarrow> 'fm FileMap \<Rightarrow>
     (FilePath \<rightharpoonup> 'libs) \<Rightarrow> (FilePath \<rightharpoonup> 'libs) option \<times> error option" where
  "GetLibraries_loop order i [] filesMap results = (Some results, None)"
| "GetLibraries_loop order i (analyzer # rest) filesMap results =
     (case LibraryAnalyzer.Analyze analyzer filesMap of
        (libMap, Some err) \<Rightarrow> (None, Some (Errorf ''failed to analyze libraries: %w'' err))
      | (libMap, None) \<Rightarrow>
          GetLibraries_loop order (Suc i) rest filesMap (range_assign (order i) libMap results))"

definition GetLibraries ::
  "(nat \<Rightarrow> FilePath list) \<Rightarrow> ('fm, 'libs) globals \<Rightarrow> 'fm FileMap \<Rightarrow>
     (FilePath \<rightharpoonup> 'libs) option \<times> error option" where
  "GetLibraries order g filesMap = GetLibraries_loop order 0 (libAnalyzers g) filesMap Map.empty"

text \<open>The mapping a Go map value holds; a \<^verbatim>\<open>nil\<close> map holds none.\<close>

definition entries :: "('k \<rightharpoonup> 'v) option \<Rightarrow> ('k \<rightharpoonup> 'v)" where
  "entries libMap = (case libMap of None \<Rightarrow> Map.empty | Some m \<Rightarrow> m)"

text \<open>
  An order the language allows: in every iteration that reaches the inner loop, each key of
  the analyzer's map occurs exactly once.
\<close>

fun range_valid ::
  "(nat \<Rightarrow> FilePath list) \<Rightarrow> nat \<Rightarrow> ('fm, 'libs) LibraryAnalyzer list \<Rightarrow> 'fm FileMap \<Rightarrow> bool" where
  "range_valid order i [] filesMap = True"
| "range_valid order i (analyzer # rest) filesMap =
     (case LibraryAnalyzer.Analyze analyzer filesMap of
        (libMap, Some err) \<Rightarrow> True
      | (libMap, None) \<Rightarrow>
          distinct (order i) \<and> set (order i) = dom (entries libMap) \<and>
          range_valid order (Suc i) rest filesMap)"

text \<open>
  The same loop with the calls it makes written down: the last component lists, in the
  order of the calls, the positions in \<^verbatim>\<open>libAnalyzers\<close> of the analyzers whose
  \<^verbatim>\<open>Analyze\<close> has been called. Iteration \<open>i\<close> calls analyzer \<open>i\<close> first and only
  then looks at the error; a \<^verbatim>\<open>return\<close> ends the loop, so no later analyzer is
  called.
\<close>

fun GetLibraries_loop_calls ::
  "(nat \<Rightarrow> FilePath list) \<Rightarrow> nat \<Rightarrow> ('fm, 'libs) LibraryAnalyzer list \<Rightarrow> 'fm FileMap \<Rightarrow>
     (FilePath \<rightharpoonup> 'libs) \<Rightarrow> nat list \<Rightarrow>
     ((FilePath \<rightharpoonup> 'libs) option \<times> error option) \<times> nat list" where
  "GetLibraries_loop_calls order i [] filesMap results calls = ((Some results, None), calls)"
| "GetLibraries_loop_calls order i (analyzer # rest) filesMap results calls =
     (let calls = calls @ [i] in
      case LibraryAnalyzer.Analyze analyzer filesMap of
        (libMap, Some err) \<Rightarrow>
          ((None, Some (Errorf ''failed to analyze libraries: %w'' err)), calls)
      | (libMap, None) \<Rightarrow>
          GetLibraries_loop_calls order (Suc i) rest filesMap
            (range_assign (order i) libMap results) calls)"

definition GetLibraries_calls ::
  "(nat \<Rightarrow> FilePath list) \<Rightarrow> ('fm, 'libs) globals \<Rightarrow> 'fm FileMap \<Rightarrow>
     ((FilePath \<rightharpoonup> 'libs) option \<times> error option) \<times> nat list" where
  "GetLibraries_calls order g filesMap =
     GetLibraries_loop_calls order 0 (libAnalyzers g) filesMap Map.empty []"

section \<open>Example plug-ins and inputs\<close>

text \<open>
  Concrete analyzers, a file map and an extractor, on which the theorems below are
  instantiated. A file map of the examples sends a path to the content of the file.
\<close>

type_synonym ex_fm = "string \<rightharpoonup> string"

definition ex_files :: "ex_fm FileMap" where
  "ex_files = Some [''etc/debian_version'' \<mapsto> ''9.8'']"

definition release_file_analyzer :: "string \<Rightarrow> string \<Rightarrow> ex_fm OSAnalyzer" where
  "release_file_analyzer family path =
     \<lparr>OSAnalyzer.Analyze = (\<lambda>filesMap.
          case entries filesMap path of
            None \<Rightarrow> (\<lparr>OS.Name = '''', Family = ''''\<rparr>, Some (Foreign ''release file not found''))
          | Some content \<Rightarrow> (\<lparr>OS.Name = content, Family = family\<rparr>, None)),
       RequiredFiles = [path]\<rparr>"

definition ex_alpine :: "ex_fm OSAnalyzer" where
  "ex_alpine = release_file_analyzer ''alpine'' ''etc/alpine-release''"

definition ex_debian :: "ex_fm OSAnalyzer" where
  "ex_debian = release_file_analyzer ''debian'' ''etc/debian_version''"

definition ex_any :: "ex_fm OSAnalyzer" where
  "ex_any = \<lparr>OSAnalyzer.Analyze = (\<lambda>filesMap. (\<lparr>OS.Name = ''unknown'', Family = ''linux''\<rparr>, None)),
             RequiredFiles = [''etc/debian_version'']\<rparr>"

definition ex_apk :: "ex_fm PkgAnalyzer" where
  "ex_apk = \<lparr>PkgAnalyzer.Analyze = (\<lambda>filesMap.
               case entries filesMap ''lib/apk/db/installed'' of
                 None \<Rightarrow> (None, Some (Foreign ''apk database not found''))
               | Some content \<Rightarrow> (Some [], None)),
             RequiredFiles = [''lib/apk/db/installed'']\<rparr>"

definition ex_dpkg :: "ex_fm PkgAnalyzer" where
  "ex_dpkg = \<lparr>PkgAnalyzer.Analyze = (\<lambda>filesMap.
                (Some [\<lparr>Package.Name = ''bash'', Version = ''4.4'', Release = ''18'', Epoch = 0,
                         Type = ''binary''\<rparr>], None)),
              RequiredFiles = [''var/lib/dpkg/status'']\<rparr>"

definition ex_libA :: "(ex_fm, string list) LibraryAnalyzer" where
  "ex_libA = \<lparr>LibraryAnalyzer.Analyze = (\<lambda>filesMap. (Some [''/a'' \<mapsto> [''lib1'']], None)),
              RequiredFiles = [''Gemfile.lock'']\<rparr>"

definition ex_libB :: "(ex_fm, string list) LibraryAnalyzer" where
  "ex_libB = \<lparr>LibraryAnalyzer.Analyze = (\<lambda>filesMap. (Some [''/a'' \<mapsto> [''lib2'']], None)),
              RequiredFiles = [''Pipfile.lock'']\<rparr>"

definition ex_libC :: "(ex_fm, string list) LibraryAnalyzer" where
  "ex_libC = \<lparr>LibraryAnalyzer.Analyze = (\<lambda>filesMap.
                (Some [''/a'' \<mapsto> [''lib3''], ''/b'' \<mapsto> [''lib4'', ''lib5'']], None)),
              RequiredFiles = [''Cargo.lock'']\<rparr>"

definition ex_libFail :: "(ex_fm, string list) LibraryAnalyzer" where
  "ex_libFail = \<lparr>LibraryAnalyzer.Analyze = (\<lambda>filesMap. (Some [''/c'' \<mapsto> [''lib6'']], Some (Foreign ''malformed lock file''))),
                 RequiredFiles = [''yarn.lock'']\<rparr>"

definition ex_globals :: "(ex_fm, string list) globals" where
  "ex_globals = \<lparr>osAnalyzers = [ex_alpine, ex_debian, ex_any],
                  pkgAnalyzers = [ex_apk, ex_dpkg],
                  libAnalyzers = [ex_libA, ex_libB]\<rparr>"

text \<open>
  An extractor that fails on one image name and on the empty stream (handing back a
  non-nil, empty map with the error) and otherwise produces every required file.
\<close>

definition ex_extractor :: "DockerOption \<Rightarrow> (unit, string, ex_fm) DockerExtractor" where
  "ex_extractor opt =
     \<lparr>Extract = (\<lambda>ctx imageName files.
          if imageName = ''missing:latest''
          then (Some Map.empty, Some (Foreign ''image not found''))
          else (Some (map_of (map (\<lambda>f. (f, ''data'')) files)), None)),
       ExtractFromFile = (\<lambda>ctx r files.
          if r = ''''
          then (Some Map.empty, Some (Foreign ''unexpected EOF''))
          else (Some (map_of (map (\<lambda>f. (f, r)) files)), None))\<rparr>"

text \<open>
  An extractor that works only when built with the timeout its entry point is meant to
  set: 600 seconds for an image name, none for a stream.
\<close>

definition timed_extractor :: "DockerOption \<Rightarrow> (unit, string, ex_fm) DockerExtractor" where
  "timed_extractor opt =
     \<lparr>Extract = (\<lambda>ctx imageName files.
          if Timeout opt = 600 * 1000 * 1000 * 1000
          then (Some (map_of (map (\<lambda>f. (f, imageName)) files)), None)
          else (None, Some (Foreign ''unexpected timeout''))),
       ExtractFromFile = (\<lambda>ctx r files.
          if Timeout opt = 0
          then (Some (map_of (map (\<lambda>f. (f, r)) files)), None)
          else (None, Some (Foreign ''unexpected timeout'')))\<rparr>"

text \<open>
  An extractor whose file map is the record of the call itself: the option it was
  built from, the context, the image name or the stream, and the required files.
\<close>

definition echo_extractor ::
  "DockerOption \<Rightarrow> ('ctx, 'r, DockerOption \<times> 'ctx \<times> (string + 'r) \<times> string list) DockerExtractor" where
  "echo_extractor opt =
     \<lparr>Extract = (\<lambda>ctx imageName files. (Some (opt, ctx, Inl imageName, files), None)),
       ExtractFromFile = (\<lambda>ctx r files. (Some (opt, ctx, Inr r, files), None))\<rparr>"

lemmas ex_defs = ex_files_def release_file_analyzer_def ex_alpine_def ex_debian_def ex_any_def
  ex_apk_def ex_dpkg_def ex_libA_def ex_libB_def ex_libC_def ex_libFail_def ex_globals_def entries_def

section \<open>Properties\<close>

subsection \<open>GetOS\<close>

lemma GetOS_loop_first_success:
  "\<forall>b\<in>set pre. snd (OSAnalyzer.Analyze b fm) \<noteq> None \<Longrightarrow> snd (OSAnalyzer.Analyze a fm) = None \<Longrightarrow>
   GetOS_loop (pre @ a # post) fm = (fst (OSAnalyzer.Analyze a fm), None)"
  by (induction pre) (auto split: prod.splits option.splits)

lemma GetOS_loop_all_fail:
  "\<forall>b\<in>set as. snd (OSAnalyzer.Analyze b fm) \<noteq> None \<Longrightarrow>
   GetOS_loop as fm = (\<lparr>OS.Name = '''', Family = ''''\<rparr>, Some ErrUnknownOS)"
  by (induction as) (auto split: prod.splits option.splits)

text \<open>
  Claim C1. For every list of registered OS analyzers and every file map, \<^verbatim>\<open>GetOS\<close>
  returns the result of the first analyzer, in registration order, whose \<^verbatim>\<open>Analyze\<close>
  returns no error, with a nil error: the errors of the analyzers before it are dropped.
  If every registered analyzer returns an error, and so also when none is registered,
  \<^verbatim>\<open>GetOS\<close> returns the zero \<^verbatim>\<open>OS\<close> and \<^verbatim>\<open>ErrUnknownOS\<close>.
\<close>

theorem GetOS_first_success:
  "(osAnalyzers g = pre @ a # post \<and> (\<forall>b\<in>set pre. snd (OSAnalyzer.Analyze b fm) \<noteq> None) \<and>
      snd (OSAnalyzer.Analyze a fm) = None
      \<longrightarrow> GetOS g fm = (fst (OSAnalyzer.Analyze a fm), None))
   \<and> ((\<forall>b\<in>set (osAnalyzers g). snd (OSAnalyzer.Analyze b fm) \<noteq> None)
      \<longrightarrow> GetOS g fm = (\<lparr>OS.Name = '''', Family = ''''\<rparr>, Some ErrUnknownOS))
   \<and> (osAnalyzers g = [] \<longrightarrow> GetOS g fm = (\<lparr>OS.Name = '''', Family = ''''\<rparr>, Some ErrUnknownOS))"
  by (simp add: GetOS_def GetOS_loop_first_success GetOS_loop_all_fail)

theorem GetOS_first_success_witness:
  "osAnalyzers ex_globals = [ex_alpine] @ ex_debian # [ex_any]
   \<and> snd (OSAnalyzer.Analyze ex_alpine ex_files) = Some (Foreign ''release file not found'')
   \<and> snd (OSAnalyzer.Analyze ex_debian ex_files) = None
   \<and> GetOS ex_globals ex_files = (\<lparr>OS.Name = ''9.8'', Family = ''debian''\<rparr>, None)
   \<and> osAnalyzers (ex_globals\<lparr>osAnalyzers := [ex_alpine]\<rparr>) = [ex_alpine]
   \<and> GetOS (ex_globals\<lparr>osAnalyzers := [ex_alpine]\<rparr>) ex_files
       = (\<lparr>OS.Name = '''', Family = ''''\<rparr>, Some ErrUnknownOS)
   \<and> osAnalyzers (ex_globals\<lparr>osAnalyzers := []\<rparr>) = []
   \<and> GetOS (ex_globals\<lparr>osAnalyzers := []\<rparr>) ex_files
       = (\<lparr>OS.Name = '''', Family = ''''\<rparr>, Some ErrUnknownOS)"
proof -
  have h1: "osAnalyzers ex_globals = [ex_alpine] @ ex_debian # [ex_any]"
    by (simp add: ex_globals_def)
  have e: "snd (OSAnalyzer.Analyze ex_alpine ex_files) = Some (Foreign ''release file not found'')"
    by (simp add: ex_defs)
  have l: "osAnalyzers (ex_globals\<lparr>osAnalyzers := [ex_alpine]\<rparr>) = [ex_alpine]"
    by simp
  have h2: "\<forall>b\<in>set [ex_alpine]. snd (OSAnalyzer.Analyze b ex_files) \<noteq> None"
    by (simp add: ex_defs)
  have h3: "snd (OSAnalyzer.Analyze ex_debian ex_files) = None"
    by (simp add: ex_defs)
  have v: "fst (OSAnalyzer.Analyze ex_debian ex_files) = \<lparr>OS.Name = ''9.8'', Family = ''debian''\<rparr>"
    by (simp add: ex_defs)
  have h4: "\<forall>b\<in>set (osAnalyzers (ex_globals\<lparr>osAnalyzers := [ex_alpine]\<rparr>)). snd (OSAnalyzer.Analyze b ex_files) \<noteq> None"
    by (simp add: ex_defs)
  have h5: "osAnalyzers (ex_globals\<lparr>osAnalyzers := []\<rparr>) = []"
    by simp
  from GetOS_first_success [of ex_globals "[ex_alpine]" ex_debian "[ex_any]" ex_files] h1 h2 h3 v
  have c1: "GetOS ex_globals ex_files = (\<lparr>OS.Name = ''9.8'', Family = ''debian''\<rparr>, None)"
    by simp
  from GetOS_first_success [of "ex_globals\<lparr>osAnalyzers := [ex_alpine]\<rparr>" _ _ _ ex_files] h4
  have c2: "GetOS (ex_globals\<lparr>osAnalyzers := [ex_alpine]\<rparr>) ex_files
       = (\<lparr>OS.Name = '''', Family = ''''\<rparr>, Some ErrUnknownOS)"
    by blast
  from GetOS_first_success [of "ex_globals\<lparr>osAnalyzers := []\<rparr>" _ _ _ ex_files] h5
  have c3: "GetOS (ex_globals\<lparr>osAnalyzers := []\<rparr>) ex_files
       = (\<lparr>OS.Name = '''', Family = ''''\<rparr>, Some ErrUnknownOS)"
    by blast
  from h1 e h3 l h5 c1 c2 c3 show ?thesis by blast
qed

subsection \<open>GetPackages\<close>

lemma GetPackages_loop_first_success:
  "\<forall>b\<in>set pre. snd (PkgAnalyzer.Analyze b fm) \<noteq> None \<Longrightarrow> snd (PkgAnalyzer.Analyze a fm) = None \<Longrightarrow>
   GetPackages_loop (pre @ a # post) fm = (fst (PkgAnalyzer.Analyze a fm), None)"
  by (induction pre) (auto split: prod.splits option.splits)

lemma GetPackages_loop_all_fail:
  "\<forall>b\<in>set as. snd (PkgAnalyzer.Analyze b fm) \<noteq> None \<Longrightarrow>
   GetPackages_loop as fm = (None, Some ErrUnknownOS)"
  by (induction as) (auto split: prod.splits option.splits)

text \<open>
  Claim C2. For every list of registered package analyzers and every file map,
  \<^verbatim>\<open>GetPackages\<close> returns the package list of the first analyzer, in registration
  order, whose \<^verbatim>\<open>Analyze\<close> returns no error, dropping the errors met before it. If
  every registered analyzer returns an error, or none is registered, it returns nil and
  \<^verbatim>\<open>ErrUnknownOS\<close>: the very error \<^verbatim>\<open>GetOS\<close> fails with, and not
  \<^verbatim>\<open>ErrPkgAnalysis\<close>.
\<close>

theorem GetPackages_first_success:
  "(pkgAnalyzers g = pre @ a # post \<and> (\<forall>b\<in>set pre. snd (PkgAnalyzer.Analyze b fm) \<noteq> None) \<and>
      snd (PkgAnalyzer.Analyze a fm) = None
      \<longrightarrow> GetPackages g fm = (fst (PkgAnalyzer.Analyze a fm), None))
   \<and> ((\<forall>b\<in>set (pkgAnalyzers g). snd (PkgAnalyzer.Analyze b fm) \<noteq> None)
      \<longrightarrow> GetPackages g fm = (None, Some ErrUnknownOS)
          \<and> snd (GetPackages g fm) = snd (GetOS (g\<lparr>osAnalyzers := []\<rparr>) fm)
          \<and> snd (GetPackages g fm) \<noteq> Some ErrPkgAnalysis)
   \<and> (pkgAnalyzers g = [] \<longrightarrow> GetPackages g fm = (None, Some ErrUnknownOS))"
  by (simp add: GetPackages_def GetPackages_loop_first_success GetPackages_loop_all_fail GetOS_def)

theorem GetPackages_first_success_witness:
  "pkgAnalyzers ex_globals = [ex_apk] @ ex_dpkg # []
   \<and> snd (PkgAnalyzer.Analyze ex_apk ex_files) = Some (Foreign ''apk database not found'')
   \<and> snd (PkgAnalyzer.Analyze ex_dpkg ex_files) = None
   \<and> GetPackages ex_globals ex_files
       = (Some [\<lparr>Package.Name = ''bash'', Version = ''4.4'', Release = ''18'', Epoch = 0,
                  Type = ''binary''\<rparr>], None)
   \<and> pkgAnalyzers (ex_globals\<lparr>pkgAnalyzers := [ex_apk]\<rparr>) = [ex_apk]
   \<and> GetPackages (ex_globals\<lparr>pkgAnalyzers := [ex_apk]\<rparr>) ex_files = (None, Some ErrUnknownOS)
   \<and> pkgAnalyzers (ex_globals\<lparr>pkgAnalyzers := []\<rparr>) = []
   \<and> GetPackages (ex_globals\<lparr>pkgAnalyzers := []\<rparr>) ex_files = (None, Some ErrUnknownOS)"
proof -
  have h1: "pkgAnalyzers ex_globals = [ex_apk] @ ex_dpkg # []"
    by (simp add: ex_globals_def)
  have e: "snd (PkgAnalyzer.Analyze ex_apk ex_files) = Some (Foreign ''apk database not found'')"
    by (simp add: ex_defs)
  have l: "pkgAnalyzers (ex_globals\<lparr>pkgAnalyzers := [ex_apk]\<rparr>) = [ex_apk]"
    by simp
  have h2: "\<forall>b\<in>set [ex_apk]. snd (PkgAnalyzer.Analyze b ex_files) \<noteq> None"
    by (simp add: ex_defs)
  have h3: "snd (PkgAnalyzer.Analyze ex_dpkg ex_files) = None"
    by (simp add: ex_defs)
  have v: "fst (PkgAnalyzer.Analyze ex_dpkg ex_files)
       = Some [\<lparr>Package.Name = ''bash'', Version = ''4.4'', Release = ''18'', Epoch = 0,
                 Type = ''binary''\<rparr>]"
    by (simp add: ex_defs)
  have h4: "\<forall>b\<in>set (pkgAnalyzers (ex_globals\<lparr>pkgAnalyzers := [ex_apk]\<rparr>)). snd (PkgAnalyzer.Analyze b ex_files) \<noteq> None"
    by (simp add: ex_defs)
  have h5: "pkgAnalyzers (ex_globals\<lparr>pkgAnalyzers := []\<rparr>) = []"
    by simp
  from GetPackages_first_success [of ex_globals "[ex_apk]" ex_dpkg "[]" ex_files] h1 h2 h3 v
  have c1: "GetPackages ex_globals ex_files
       = (Some [\<lparr>Package.Name = ''bash'', Version = ''4.4'', Release = ''18'', Epoch = 0,
                  Type = ''binary''\<rparr>], None)"
    by simp
  from GetPackages_first_success [of "ex_globals\<lparr>pkgAnalyzers := [ex_apk]\<rparr>" _ _ _ ex_files] h4
  have c2: "GetPackages (ex_globals\<lparr>pkgAnalyzers := [ex_apk]\<rparr>) ex_files = (None, Some ErrUnknownOS)"
    by blast
  from GetPackages_first_success [of "ex_globals\<lparr>pkgAnalyzers := []\<rparr>" _ _ _ ex_files] h5
  have c3: "GetPackages (ex_globals\<lparr>pkgAnalyzers := []\<rparr>) ex_files = (None, Some ErrUnknownOS)"
    by blast
  from h1 e h3 l h5 c1 c2 c3 show ?thesis by blast
qed

subsection \<open>CheckPackage\<close>

text \<open>
  Claim C6. For every package value, \<^verbatim>\<open>CheckPackage\<close> applied to a pointer to it
  returns true exactly when both \<^verbatim>\<open>Name\<close> and \<^verbatim>\<open>Version\<close> are non-empty. An empty
  name with version 1.0 gives false, the name foo with an empty version gives false, and
  foo with 1.0 gives true (the fields the examples leave out hold their zero values).
\<close>

theorem CheckPackage_iff:
  "CheckPackage (Some pkg) = Inr (Package.Name pkg \<noteq> '''' \<and> Package.Version pkg \<noteq> '''')
   \<and> CheckPackage (Some \<lparr>Package.Name = '''', Version = ''1.0'', Release = '''', Epoch = 0, Type = ''''\<rparr>)
       = Inr False
   \<and> CheckPackage (Some \<lparr>Package.Name = ''foo'', Version = '''', Release = '''', Epoch = 0, Type = ''''\<rparr>)
       = Inr False
   \<and> CheckPackage (Some \<lparr>Package.Name = ''foo'', Version = ''1.0'', Release = '''', Epoch = 0, Type = ''''\<rparr>)
       = Inr True"
  by (simp add: CheckPackage_def)

subsection \<open>RequiredFilenames\<close>

lemma fold_append_concat:
  "fold (\<lambda>a fs. fs @ f a) xs acc = acc @ concat (map f xs)"
  by (induction xs arbitrary: acc) auto

text \<open>
  Claim C5. For every state of the three variables, \<^verbatim>\<open>RequiredFilenames\<close> is the
  concatenation of the \<^verbatim>\<open>RequiredFiles\<close> of all registered analyzers: the OS
  analyzers first, then the package analyzers, then the library analyzers, each group in
  registration order and each list in its own order. Nothing is removed: a path occurs
  in the result as often as it occurs in all the lists together.
\<close>

theorem RequiredFilenames_concat:
  "RequiredFilenames g
     = concat (map OSAnalyzer.RequiredFiles (osAnalyzers g))
       @ concat (map PkgAnalyzer.RequiredFiles (pkgAnalyzers g))
       @ concat (map LibraryAnalyzer.RequiredFiles (libAnalyzers g))
   \<and> count_list (RequiredFilenames g) path
     = (\<Sum>a\<leftarrow>osAnalyzers g. count_list (OSAnalyzer.RequiredFiles a) path)
       + (\<Sum>a\<leftarrow>pkgAnalyzers g. count_list (PkgAnalyzer.RequiredFiles a) path)
       + (\<Sum>a\<leftarrow>libAnalyzers g. count_list (LibraryAnalyzer.RequiredFiles a) path)"
  by (simp add: RequiredFilenames_def fold_append_concat count_list_concat comp_def)

theorem RequiredFilenames_concat_witness:
  "RequiredFilenames ex_globals
     = [''etc/alpine-release'', ''etc/debian_version'', ''etc/debian_version'',
        ''lib/apk/db/installed'', ''var/lib/dpkg/status'', ''Gemfile.lock'', ''Pipfile.lock'']
   \<and> count_list (RequiredFilenames ex_globals) ''etc/debian_version'' = 2"
  using RequiredFilenames_concat [of ex_globals "''etc/debian_version''"]
  by (simp add: ex_defs)

subsection \<open>Analyze and AnalyzeFromFile\<close>

text \<open>
  Claim C7. In both entry points, when the extractor returns an error, the result is a nil
  file map and that error wrapped with the message \<^verbatim>\<open>Failed to extract files\<close>;
  when it returns no error, the result is the extractor's file map, unchanged, and no
  error.
\<close>

theorem Analyze_wraps_extractor_error:
  "(Extract (new \<lparr>Timeout = 600 * Second\<rparr>) ctx imageName (RequiredFilenames g) = (filesMap, Some err)
      \<longrightarrow> Analyze new g ctx imageName = (None, Some (Wrap err ''Failed to extract files'')))
   \<and> (Extract (new \<lparr>Timeout = 600 * Second\<rparr>) ctx imageName (RequiredFilenames g) = (filesMap, None)
      \<longrightarrow> Analyze new g ctx imageName = (filesMap, None))
   \<and> (ExtractFromFile (new \<lparr>Timeout = 0\<rparr>) ctx r (RequiredFilenames g) = (filesMap', Some err')
      \<longrightarrow> AnalyzeFromFile new g ctx r = (None, Some (Wrap err' ''Failed to extract files'')))
   \<and> (ExtractFromFile (new \<lparr>Timeout = 0\<rparr>) ctx r (RequiredFilenames g) = (filesMap', None)
      \<longrightarrow> AnalyzeFromFile new g ctx r = (filesMap', None))"
  by (simp add: Analyze_def AnalyzeFromFile_def)

theorem Analyze_wraps_extractor_error_witness:
  "Extract (ex_extractor \<lparr>Timeout = 600 * Second\<rparr>) () ''missing:latest'' (RequiredFilenames ex_globals)
     = (Some Map.empty, Some (Foreign ''image not found''))
   \<and> Analyze ex_extractor ex_globals () ''missing:latest''
     = (None, Some (Wrap (Foreign ''image not found'') ''Failed to extract files''))
   \<and> Extract (ex_extractor \<lparr>Timeout = 600 * Second\<rparr>) () ''debian:9'' (RequiredFilenames (ex_globals\<lparr>osAnalyzers := [ex_debian], pkgAnalyzers := [], libAnalyzers := []\<rparr>))
     = (Some [''etc/debian_version'' \<mapsto> ''data''], None)
   \<and> Analyze ex_extractor (ex_globals\<lparr>osAnalyzers := [ex_debian], pkgAnalyzers := [], libAnalyzers := []\<rparr>) () ''debian:9''
     = (Some [''etc/debian_version'' \<mapsto> ''data''], None)
   \<and> ExtractFromFile (ex_extractor \<lparr>Timeout = 0\<rparr>) () '''' (RequiredFilenames ex_globals)
     = (Some Map.empty, Some (Foreign ''unexpected EOF''))
   \<and> AnalyzeFromFile ex_extractor ex_globals () ''''
     = (None, Some (Wrap (Foreign ''unexpected EOF'') ''Failed to extract files''))
   \<and> ExtractFromFile (ex_extractor \<lparr>Timeout = 0\<rparr>) () ''tar'' (RequiredFilenames (ex_globals\<lparr>osAnalyzers := [ex_debian], pkgAnalyzers := [], libAnalyzers := []\<rparr>))
     = (Some [''etc/debian_version'' \<mapsto> ''tar''], None)
   \<and> AnalyzeFromFile ex_extractor (ex_globals\<lparr>osAnalyzers := [ex_debian], pkgAnalyzers := [], libAnalyzers := []\<rparr>) () ''tar''
     = (Some [''etc/debian_version'' \<mapsto> ''tar''], None)"
proof -
  let ?g = "ex_globals\<lparr>osAnalyzers := [ex_debian], pkgAnalyzers := [], libAnalyzers := []\<rparr>"
  have f: "RequiredFilenames ?g = [''etc/debian_version'']"
    by (simp add: RequiredFilenames_def ex_defs)
  have h1: "Extract (ex_extractor \<lparr>Timeout = 600 * Second\<rparr>) () ''missing:latest'' (RequiredFilenames ex_globals)
     = (Some Map.empty, Some (Foreign ''image not found''))"
    by (simp add: ex_extractor_def)
  have h2: "Extract (ex_extractor \<lparr>Timeout = 600 * Second\<rparr>) () ''debian:9'' (RequiredFilenames ?g)
     = (Some [''etc/debian_version'' \<mapsto> ''data''], None)"
    by (simp add: ex_extractor_def f)
  have h3: "ExtractFromFile (ex_extractor \<lparr>Timeout = 0\<rparr>) () '''' (RequiredFilenames ex_globals)
     = (Some Map.empty, Some (Foreign ''unexpected EOF''))"
    by (simp add: ex_extractor_def)
  have h4: "ExtractFromFile (ex_extractor \<lparr>Timeout = 0\<rparr>) () ''tar'' (RequiredFilenames ?g)
     = (Some [''etc/debian_version'' \<mapsto> ''tar''], None)"
    by (simp add: ex_extractor_def f)
  from Analyze_wraps_extractor_error [of ex_extractor "()" "''missing:latest''" ex_globals] h1
  have c1: "Analyze ex_extractor ex_globals () ''missing:latest''
     = (None, Some (Wrap (Foreign ''image not found'') ''Failed to extract files''))"
    by blast
  from Analyze_wraps_extractor_error [of ex_extractor "()" "''debian:9''" ?g] h2
  have c2: "Analyze ex_extractor ?g () ''debian:9'' = (Some [''etc/debian_version'' \<mapsto> ''data''], None)"
    by blast
  from Analyze_wraps_extractor_error [of ex_extractor "()" _ ex_globals _ _ "''''"] h3
  have c3: "AnalyzeFromFile ex_extractor ex_globals () ''''
     = (None, Some (Wrap (Foreign ''unexpected EOF'') ''Failed to extract files''))"
    by blast
  from Analyze_wraps_extractor_error [of ex_extractor "()" _ ?g _ _ "''tar''"] h4
  have c4: "AnalyzeFromFile ex_extractor ?g () ''tar'' = (Some [''etc/debian_version'' \<mapsto> ''tar''], None)"
    by blast
  from h1 h2 h3 h4 c1 c2 c3 c4 show ?thesis by blast
qed

text \<open>
  Claim C8. For every extractor, registry, context and image name, \<^verbatim>\<open>Analyze\<close>
  calls \<^verbatim>\<open>Extract\<close> of the extractor built from the option whose timeout is 600
  seconds (600 000 000 000 nanoseconds), with the context, the image name and the current
  \<^verbatim>\<open>RequiredFilenames\<close>. For every extractor, registry, context and stream,
  \<^verbatim>\<open>AnalyzeFromFile\<close> calls \<^verbatim>\<open>ExtractFromFile\<close> of the extractor built from
  the zero option, which sets no timeout, with the context, the stream and the current
  \<^verbatim>\<open>RequiredFilenames\<close>. The first two equations hold at every type of file map;
  the next two, on variables of their own, read the call off the extractor that hands
  back what it was given.
\<close>

theorem Analyze_extractor_configuration:
  "Analyze (new :: DockerOption \<Rightarrow> ('ctx, 'r, 'fm) DockerExtractor) (g :: ('fm, 'libs) globals)
       ctx imageName
     = (case Extract (new \<lparr>Timeout = 600 * Second\<rparr>) ctx imageName (RequiredFilenames g) of
          (filesMap, Some err) \<Rightarrow> (None, Some (Wrap err ''Failed to extract files''))
        | (filesMap, None) \<Rightarrow> (filesMap, None))
   \<and> AnalyzeFromFile new g ctx r
     = (case ExtractFromFile (new \<lparr>Timeout = 0\<rparr>) ctx r (RequiredFilenames g) of
          (filesMap, Some err) \<Rightarrow> (None, Some (Wrap err ''Failed to extract files''))
        | (filesMap, None) \<Rightarrow> (filesMap, None))
   \<and> Analyze echo_extractor
         (h :: (DockerOption \<times> 'c \<times> (string + 's) \<times> string list, 'l) globals) c name
     = (Some (\<lparr>Timeout = 600 * Second\<rparr>, c, Inl name, RequiredFilenames h), None)
   \<and> AnalyzeFromFile echo_extractor h c s
     = (Some (\<lparr>Timeout = 0\<rparr>, c, Inr s, RequiredFilenames h), None)
   \<and> 600 * Second = 600 * 1000 * 1000 * 1000"
  by (simp add: Analyze_def AnalyzeFromFile_def echo_extractor_def Second_def)

theorem Analyze_extractor_configuration_witness:
  "Analyze timed_extractor (ex_globals\<lparr>osAnalyzers := [ex_debian], pkgAnalyzers := [], libAnalyzers := []\<rparr>)
       () ''debian:9''
     = (Some [''etc/debian_version'' \<mapsto> ''debian:9''], None)
   \<and> AnalyzeFromFile timed_extractor
       (ex_globals\<lparr>osAnalyzers := [ex_debian], pkgAnalyzers := [], libAnalyzers := []\<rparr>) () ''tar''
     = (Some [''etc/debian_version'' \<mapsto> ''tar''], None)
   \<and> Analyze ex_extractor ex_globals () ''missing:latest''
     = (None, Some (Wrap (Foreign ''image not found'') ''Failed to extract files''))"
proof -
  let ?g = "ex_globals\<lparr>osAnalyzers := [ex_debian], pkgAnalyzers := [], libAnalyzers := []\<rparr>"
  have f: "RequiredFilenames ?g = [''etc/debian_version'']"
    by (simp add: RequiredFilenames_def ex_defs)
  note t1 = Analyze_extractor_configuration
    [of timed_extractor ?g "()" "''debian:9''" "''tar''", THEN conjunct1]
  note t2 = Analyze_extractor_configuration
    [of timed_extractor ?g "()" "''debian:9''" "''tar''", THEN conjunct2, THEN conjunct1]
  note e = Analyze_extractor_configuration
    [of ex_extractor ex_globals "()" "''missing:latest''", THEN conjunct1]
  from t1 have c1: "Analyze timed_extractor ?g () ''debian:9''
      = (Some [''etc/debian_version'' \<mapsto> ''debian:9''], None)"
    by (simp add: f timed_extractor_def Second_def)
  from t2 have c2: "AnalyzeFromFile timed_extractor ?g () ''tar''
      = (Some [''etc/debian_version'' \<mapsto> ''tar''], None)"
    by (simp add: f timed_extractor_def)
  from e have c3: "Analyze ex_extractor ex_globals () ''missing:latest''
      = (None, Some (Wrap (Foreign ''image not found'') ''Failed to extract files''))"
    by (simp add: ex_extractor_def)
  from c1 c2 c3 show ?thesis by blast
qed

subsection \<open>Registration\<close>

lemma fold_register_prefix:
  "prefix (osAnalyzers g) (osAnalyzers (fold register rs g))
   \<and> prefix (pkgAnalyzers g) (pkgAnalyzers (fold register rs g))
   \<and> prefix (libAnalyzers g) (libAnalyzers (fold register rs g))"
proof (induction rs arbitrary: g)
  case Nil
  show ?case by simp
next
  case (Cons r rs)
  have step: "prefix (osAnalyzers g) (osAnalyzers (register r g))
     \<and> prefix (pkgAnalyzers g) (pkgAnalyzers (register r g))
     \<and> prefix (libAnalyzers g) (libAnalyzers (register r g))"
    by (cases r) (simp_all add: RegisterOSAnalyzer_def RegisterPkgAnalyzer_def RegisterLibraryAnalyzer_def)
  from Cons.IH [of "register r g"] step show ?case
    by (auto intro: prefix_order.trans)
qed

text \<open>
  Claim C9. Each of the three registration functions puts the analyzer at the end of its
  own list and leaves the two other lists as they were. After any sequence of
  registrations, each list still starts with the analyzers it held before, in the same
  order: none is removed or moved. (The other functions of the package only read the
  three variables.)
\<close>

theorem Register_appends:
  "osAnalyzers (RegisterOSAnalyzer osa g) = osAnalyzers g @ [osa]
   \<and> pkgAnalyzers (RegisterOSAnalyzer osa g) = pkgAnalyzers g
   \<and> libAnalyzers (RegisterOSAnalyzer osa g) = libAnalyzers g
   \<and> osAnalyzers (RegisterPkgAnalyzer pa g) = osAnalyzers g
   \<and> pkgAnalyzers (RegisterPkgAnalyzer pa g) = pkgAnalyzers g @ [pa]
   \<and> libAnalyzers (RegisterPkgAnalyzer pa g) = libAnalyzers g
   \<and> osAnalyzers (RegisterLibraryAnalyzer la g) = osAnalyzers g
   \<and> pkgAnalyzers (RegisterLibraryAnalyzer la g) = pkgAnalyzers g
   \<and> libAnalyzers (RegisterLibraryAnalyzer la g) = libAnalyzers g @ [la]
   \<and> prefix (osAnalyzers g) (osAnalyzers (fold register rs g))
   \<and> prefix (pkgAnalyzers g) (pkgAnalyzers (fold register rs g))
   \<and> prefix (libAnalyzers g) (libAnalyzers (fold register rs g))"
  using fold_register_prefix [of g rs]
  by (simp add: RegisterOSAnalyzer_def RegisterPkgAnalyzer_def RegisterLibraryAnalyzer_def)

subsection \<open>GetLibraries\<close>

lemma fold_assign_restrict:
  "fold (\<lambda>filePath results. case m filePath of None \<Rightarrow> results | Some libs \<Rightarrow> results(filePath \<mapsto> libs)) ks r
     = r ++ (m |` set ks)"
proof (induction ks arbitrary: r)
  case Nil
  show ?case by simp
next
  case (Cons k ks)
  show ?case
    by (auto simp: Cons.IH map_add_def restrict_map_def fun_eq_iff split: option.splits)
qed

lemma restrict_map_dom: "m |` dom m = m"
  by (auto simp: restrict_map_def fun_eq_iff domIff)

lemma range_assign_map_add:
  "set keys = dom (entries libMap) \<Longrightarrow> range_assign keys libMap results = results ++ entries libMap"
  by (cases libMap) (auto simp: range_assign_def entries_def fold_assign_restrict restrict_map_dom)

lemma GetLibraries_loop_error:
  "\<forall>b\<in>set pre. snd (LibraryAnalyzer.Analyze b fm) = None \<Longrightarrow>
   snd (LibraryAnalyzer.Analyze a fm) = Some err \<Longrightarrow>
   GetLibraries_loop order i (pre @ a # post) fm results
     = (None, Some (Errorf ''failed to analyze libraries: %w'' err))"
  by (induction pre arbitrary: i results) (auto split: prod.splits option.splits)

lemma first_error_split:
  "\<exists>a\<in>set as. snd (LibraryAnalyzer.Analyze a fm) \<noteq> None \<Longrightarrow>
   \<exists>pre a post err. as = pre @ a # post \<and> (\<forall>b\<in>set pre. snd (LibraryAnalyzer.Analyze b fm) = None)
      \<and> snd (LibraryAnalyzer.Analyze a fm) = Some err"
proof (induction as)
  case Nil
  then show ?case by simp
next
  case (Cons x xs)
  show ?case
  proof (cases "snd (LibraryAnalyzer.Analyze x fm)")
    case None
    with Cons.prems have "\<exists>a\<in>set xs. snd (LibraryAnalyzer.Analyze a fm) \<noteq> None" by auto
    from Cons.IH [OF this] obtain pre a post err where
      "xs = pre @ a # post" "\<forall>b\<in>set pre. snd (LibraryAnalyzer.Analyze b fm) = None"
      "snd (LibraryAnalyzer.Analyze a fm) = Some err" by blast
    with None have "x # xs = (x # pre) @ a # post \<and>
        (\<forall>b\<in>set (x # pre). snd (LibraryAnalyzer.Analyze b fm) = None) \<and>
        snd (LibraryAnalyzer.Analyze a fm) = Some err" by simp
    then show ?thesis by blast
  next
    case (Some err)
    then have "x # xs = [] @ x # xs \<and>
        (\<forall>b\<in>set []. snd (LibraryAnalyzer.Analyze b fm) = None) \<and>
        snd (LibraryAnalyzer.Analyze x fm) = Some err" by simp
    then show ?thesis by blast
  qed
qed

lemma GetLibraries_loop_merge:
  "\<forall>a\<in>set as. snd (LibraryAnalyzer.Analyze a fm) = None \<Longrightarrow> range_valid order i as fm \<Longrightarrow>
   GetLibraries_loop order i as fm results
     = (Some (foldl (++) results (map (\<lambda>a. entries (fst (LibraryAnalyzer.Analyze a fm))) as)), None)"
  by (induction as arbitrary: i results) (auto simp: range_assign_map_add split: prod.splits option.splits)

lemma GetLibraries_loop_order_irrelevant:
  "range_valid order i as fm \<Longrightarrow> range_valid order' j as fm \<Longrightarrow>
   GetLibraries_loop order i as fm results = GetLibraries_loop order' j as fm results"
  by (induction as arbitrary: i j results) (auto simp: range_assign_map_add split: prod.splits option.splits)

lemma foldl_map_add_none: "\<forall>n\<in>set ns. n k = None \<Longrightarrow> foldl (++) r ns k = r k"
  by (induction ns arbitrary: r) (auto simp: map_add_def)

lemma foldl_map_add_last_wins:
  "m k = Some v \<Longrightarrow> \<forall>n\<in>set ns. n k = None \<Longrightarrow> foldl (++) r (ms @ m # ns) k = Some v"
  by (simp add: foldl_map_add_none)

lemma GetLibraries_loop_calls_result:
  "fst (GetLibraries_loop_calls order i as fm results calls) = GetLibraries_loop order i as fm results"
  by (induction as arbitrary: i results calls) (auto simp: Let_def split: prod.splits option.splits)

lemma GetLibraries_loop_calls_error:
  "\<forall>b\<in>set pre. snd (LibraryAnalyzer.Analyze b fm) = None \<Longrightarrow>
   snd (LibraryAnalyzer.Analyze a fm) = Some err \<Longrightarrow>
   snd (GetLibraries_loop_calls order i (pre @ a # post) fm results calls)
     = calls @ [i..<Suc (i + length pre)]"
proof (induction pre arbitrary: i results calls)
  case Nil
  then show ?case
    by (auto simp: Let_def split: prod.splits option.splits)
next
  case (Cons x xs)
  obtain libMap where x: "LibraryAnalyzer.Analyze x fm = (libMap, None)"
    using Cons.prems(1) by (cases "LibraryAnalyzer.Analyze x fm") auto
  have rest: "\<forall>b\<in>set xs. snd (LibraryAnalyzer.Analyze b fm) = None"
    using Cons.prems(1) by simp
  have u: "[i..<Suc (i + length (x # xs))] = i # [Suc i..<Suc (Suc i + length xs)]"
    by (simp add: upt_conv_Cons del: upt_Suc)
  have "snd (GetLibraries_loop_calls order i ((x # xs) @ a # post) fm results calls)
      = snd (GetLibraries_loop_calls order (Suc i) (xs @ a # post) fm
               (range_assign (order i) libMap results) (calls @ [i]))"
    by (simp add: x)
  also have "\<dots> = (calls @ [i]) @ [Suc i..<Suc (Suc i + length xs)]"
    by (rule Cons.IH [OF rest Cons.prems(2)])
  also have "\<dots> = calls @ [i..<Suc (i + length (x # xs))]"
    by (simp only: u append_assoc append_Cons append_Nil)
  finally show ?case .
qed

text \<open>
  Claim C3. If \<^verbatim>\<open>Analyze\<close> of any registered library analyzer returns an error,
  \<^verbatim>\<open>GetLibraries\<close> returns a nil map and an error made by
  \<^verbatim>\<open>xerrors.Errorf\<close> with the format \<^verbatim>\<open>failed to analyze libraries: %w\<close>.
  The wrapped error is that of the first failing analyzer in registration order, and what
  the analyzers before it contributed is not returned. The call fails at once: the
  analyzers called are exactly those up to and including the failing one, each once and in
  registration order, and none after it; accordingly the result is the same whatever
  analyzers follow. The loop with the calls written down returns what
  \<^verbatim>\<open>GetLibraries\<close> returns, on every input.
\<close>

theorem GetLibraries_all_or_nothing:
  "((\<exists>a\<in>set (libAnalyzers g). snd (LibraryAnalyzer.Analyze a fm) \<noteq> None)
      \<longrightarrow> (\<exists>err. GetLibraries order g fm
                   = (None, Some (Errorf ''failed to analyze libraries: %w'' err))))
   \<and> (libAnalyzers g = pre @ a # post \<and>
      (\<forall>b\<in>set pre. snd (LibraryAnalyzer.Analyze b fm) = None) \<and>
      snd (LibraryAnalyzer.Analyze a fm) = Some err
      \<longrightarrow> GetLibraries order g fm = (None, Some (Errorf ''failed to analyze libraries: %w'' err))
          \<and> (\<forall>post'. GetLibraries order (g\<lparr>libAnalyzers := pre @ a # post'\<rparr>) fm
                       = GetLibraries order g fm)
          \<and> GetLibraries_calls order g fm
              = ((None, Some (Errorf ''failed to analyze libraries: %w'' err)),
                 [0..<Suc (length pre)]))
   \<and> fst (GetLibraries_calls order g fm) = GetLibraries order g fm"
proof -
  have "\<exists>err. GetLibraries order g fm = (None, Some (Errorf ''failed to analyze libraries: %w'' err))"
    if "\<exists>a\<in>set (libAnalyzers g). snd (LibraryAnalyzer.Analyze a fm) \<noteq> None"
  proof -
    from first_error_split [OF that] obtain p x q e where
      "libAnalyzers g = p @ x # q" "\<forall>b\<in>set p. snd (LibraryAnalyzer.Analyze b fm) = None"
      "snd (LibraryAnalyzer.Analyze x fm) = Some e" by blast
    then have "GetLibraries order g fm = (None, Some (Errorf ''failed to analyze libraries: %w'' e))"
      by (simp add: GetLibraries_def GetLibraries_loop_error)
    then show ?thesis by blast
  qed
  moreover have r: "fst (GetLibraries_calls order g fm) = GetLibraries order g fm"
    by (simp add: GetLibraries_calls_def GetLibraries_def GetLibraries_loop_calls_result)
  moreover have "GetLibraries_calls order g fm
        = ((None, Some (Errorf ''failed to analyze libraries: %w'' err)), [0..<Suc (length pre)])"
    if l: "libAnalyzers g = pre @ a # post"
      and p: "\<forall>b\<in>set pre. snd (LibraryAnalyzer.Analyze b fm) = None"
      and e: "snd (LibraryAnalyzer.Analyze a fm) = Some err"
  proof -
    have "fst (GetLibraries_calls order g fm)
        = (None, Some (Errorf ''failed to analyze libraries: %w'' err))"
      using l p e by (simp add: r GetLibraries_def GetLibraries_loop_error)
    moreover have "snd (GetLibraries_calls order g fm) = [0..<Suc (length pre)]"
      using GetLibraries_loop_calls_error [OF p e, of order 0 post Map.empty "[]"]
      by (simp add: GetLibraries_calls_def l del: upt_Suc)
    ultimately show ?thesis by (simp add: prod_eq_iff)
  qed
  ultimately show ?thesis
    by (simp add: GetLibraries_def GetLibraries_loop_error del: upt_Suc)
qed

theorem GetLibraries_all_or_nothing_witness:
  "libAnalyzers (ex_globals\<lparr>libAnalyzers := [ex_libA, ex_libFail, ex_libB]\<rparr>)
       = [ex_libA] @ ex_libFail # [ex_libB]
   \<and> LibraryAnalyzer.Analyze ex_libA ex_files = (Some [''/a'' \<mapsto> [''lib1'']], None)
   \<and> snd (LibraryAnalyzer.Analyze ex_libFail ex_files) = Some (Foreign ''malformed lock file'')
   \<and> GetLibraries (\<lambda>i. [''/a'']) (ex_globals\<lparr>libAnalyzers := [ex_libA, ex_libFail, ex_libB]\<rparr>) ex_files
       = (None, Some (Errorf ''failed to analyze libraries: %w'' (Foreign ''malformed lock file'')))
   \<and> GetLibraries_calls (\<lambda>i. [''/a'']) (ex_globals\<lparr>libAnalyzers := [ex_libA, ex_libFail, ex_libB]\<rparr>) ex_files
       = ((None, Some (Errorf ''failed to analyze libraries: %w'' (Foreign ''malformed lock file''))),
          [0, 1])"
proof -
  let ?g = "ex_globals\<lparr>libAnalyzers := [ex_libA, ex_libFail, ex_libB]\<rparr>"
  have s: "LibraryAnalyzer.Analyze ex_libA ex_files = (Some [''/a'' \<mapsto> [''lib1'']], None)"
    by (simp add: ex_defs)
  have h1: "libAnalyzers ?g = [ex_libA] @ ex_libFail # [ex_libB]"
    by simp
  have h2: "\<forall>b\<in>set [ex_libA]. snd (LibraryAnalyzer.Analyze b ex_files) = None"
    by (simp add: ex_defs)
  have h3: "snd (LibraryAnalyzer.Analyze ex_libFail ex_files) = Some (Foreign ''malformed lock file'')"
    by (simp add: ex_defs)
  note t = GetLibraries_all_or_nothing [of ?g ex_files "\<lambda>i. [''/a'']" "[ex_libA]" ex_libFail "[ex_libB]"
      "Foreign ''malformed lock file''"]
  from t h1 h2 h3
  have c: "GetLibraries (\<lambda>i. [''/a'']) ?g ex_files
       = (None, Some (Errorf ''failed to analyze libraries: %w'' (Foreign ''malformed lock file'')))"
    by blast
  from t h1 h2 h3
  have "GetLibraries_calls (\<lambda>i. [''/a'']) ?g ex_files
       = ((None, Some (Errorf ''failed to analyze libraries: %w'' (Foreign ''malformed lock file''))),
          [0..<Suc (length [ex_libA])])"
    by blast
  then have d: "GetLibraries_calls (\<lambda>i. [''/a'']) ?g ex_files
       = ((None, Some (Errorf ''failed to analyze libraries: %w'' (Foreign ''malformed lock file''))),
          [0, 1])"
    by (simp add: upt_conv_Cons)
  from h1 s h3 c d show ?thesis by blast
qed

text \<open>
  Claim C4. When every registered library analyzer succeeds, \<^verbatim>\<open>GetLibraries\<close>
  returns, with no error, the analyzers' maps merged from left to right in registration
  order, a later map overriding an earlier one key by key. So for a file path that several
  analyzers emit, the result holds the whole list of the last of them. With A returning
  \<open>/a \<mapsto> [lib1]\<close> and B returning \<open>/a \<mapsto> [lib2]\<close>, registered in this order, the
  result maps \<open>/a\<close> to \<open>[lib2]\<close>.
\<close>

theorem GetLibraries_merge_last_wins:
  assumes "\<forall>a\<in>set (libAnalyzers g). snd (LibraryAnalyzer.Analyze a fm) = None"
    and "range_valid order 0 (libAnalyzers g) fm"
  shows "GetLibraries order g fm
           = (Some (foldl (++) Map.empty
                      (map (\<lambda>a. entries (fst (LibraryAnalyzer.Analyze a fm))) (libAnalyzers g))), None)
         \<and> (libAnalyzers g = pre @ a # post \<and>
            entries (fst (LibraryAnalyzer.Analyze a fm)) filePath = Some libs \<and>
            (\<forall>b\<in>set post. entries (fst (LibraryAnalyzer.Analyze b fm)) filePath = None)
            \<longrightarrow> (\<exists>results. GetLibraries order g fm = (Some results, None) \<and>
                             results filePath = Some libs))"
proof -
  let ?maps = "\<lambda>as. map (\<lambda>a. entries (fst (LibraryAnalyzer.Analyze a fm))) as"
  have eq: "GetLibraries order g fm = (Some (foldl (++) Map.empty (?maps (libAnalyzers g))), None)"
    using assms by (simp add: GetLibraries_def GetLibraries_loop_merge)
  have "foldl (++) Map.empty (?maps (libAnalyzers g)) filePath = Some libs"
    if l: "libAnalyzers g = pre @ a # post"
      and k: "entries (fst (LibraryAnalyzer.Analyze a fm)) filePath = Some libs"
      and n: "\<forall>b\<in>set post. entries (fst (LibraryAnalyzer.Analyze b fm)) filePath = None"
  proof -
    have "\<forall>n\<in>set (?maps post). n filePath = None"
      using n by simp
    with k have "foldl (++) Map.empty
        (?maps pre @ entries (fst (LibraryAnalyzer.Analyze a fm)) # ?maps post) filePath = Some libs"
      by (rule foldl_map_add_last_wins)
    then show ?thesis
      by (simp add: l)
  qed
  with eq show ?thesis by simp
qed

theorem GetLibraries_merge_last_wins_witness:
  "libAnalyzers ex_globals = [ex_libA, ex_libB]
   \<and> LibraryAnalyzer.Analyze ex_libA ex_files = (Some [''/a'' \<mapsto> [''lib1'']], None)
   \<and> LibraryAnalyzer.Analyze ex_libB ex_files = (Some [''/a'' \<mapsto> [''lib2'']], None)
   \<and> range_valid (\<lambda>i. [''/a'']) 0 (libAnalyzers ex_globals) ex_files
   \<and> GetLibraries (\<lambda>i. [''/a'']) ex_globals ex_files = (Some [''/a'' \<mapsto> [''lib2'']], None)"
proof -
  have h1: "\<forall>a\<in>set (libAnalyzers ex_globals). snd (LibraryAnalyzer.Analyze a ex_files) = None"
    by (simp add: ex_defs)
  have h2: "range_valid (\<lambda>i. [''/a'']) 0 (libAnalyzers ex_globals) ex_files"
    by (simp add: ex_defs)
  have a: "LibraryAnalyzer.Analyze ex_libA ex_files = (Some [''/a'' \<mapsto> [''lib1'']], None)"
    by (simp add: ex_defs)
  have b: "LibraryAnalyzer.Analyze ex_libB ex_files = (Some [''/a'' \<mapsto> [''lib2'']], None)"
    by (simp add: ex_defs)
  have l: "libAnalyzers ex_globals = [ex_libA, ex_libB]"
    by (simp add: ex_globals_def)
  from GetLibraries_merge_last_wins [OF h1 h2]
  have "GetLibraries (\<lambda>i. [''/a'']) ex_globals ex_files
          = (Some (foldl (++) Map.empty
               (map (\<lambda>a. entries (fst (LibraryAnalyzer.Analyze a ex_files))) (libAnalyzers ex_globals))), None)"
    by blast
  then have c: "GetLibraries (\<lambda>i. [''/a'']) ex_globals ex_files = (Some [''/a'' \<mapsto> [''lib2'']], None)"
    by (simp add: l a b entries_def)
  from l a b h2 c show ?thesis by blast
qed

text \<open>
  Claim C10. \<^verbatim>\<open>GetLibraries\<close> is deterministic: for a fixed registry and file map,
  any two orders in which the inner loops may visit the keys of the analyzers' maps give
  the same result, be it the error or the final mapping. With no library analyzer
  registered the result is the empty, non-nil map and no error.
\<close>

theorem GetLibraries_deterministic:
  "(range_valid order 0 (libAnalyzers g) fm \<and> range_valid order' 0 (libAnalyzers g) fm
      \<longrightarrow> GetLibraries order g fm = GetLibraries order' g fm)
   \<and> (libAnalyzers g = [] \<longrightarrow> GetLibraries order g fm = (Some Map.empty, None))"
  using GetLibraries_loop_order_irrelevant [of order 0 "libAnalyzers g" fm order' 0 Map.empty]
  by (simp add: GetLibraries_def)

theorem GetLibraries_deterministic_witness:
  "range_valid (\<lambda>i. if i = 0 then [''/a'', ''/b''] else [''/a'']) 0
      (libAnalyzers (ex_globals\<lparr>libAnalyzers := [ex_libC, ex_libA]\<rparr>)) ex_files
   \<and> range_valid (\<lambda>i. if i = 0 then [''/b'', ''/a''] else [''/a'']) 0
      (libAnalyzers (ex_globals\<lparr>libAnalyzers := [ex_libC, ex_libA]\<rparr>)) ex_files
   \<and> GetLibraries (\<lambda>i. if i = 0 then [''/a'', ''/b''] else [''/a''])
        (ex_globals\<lparr>libAnalyzers := [ex_libC, ex_libA]\<rparr>) ex_files
     = GetLibraries (\<lambda>i. if i = 0 then [''/b'', ''/a''] else [''/a''])
        (ex_globals\<lparr>libAnalyzers := [ex_libC, ex_libA]\<rparr>) ex_files
   \<and> GetLibraries (\<lambda>i. if i = 0 then [''/b'', ''/a''] else [''/a''])
        (ex_globals\<lparr>libAnalyzers := [ex_libC, ex_libA]\<rparr>) ex_files
     = (Some [''/a'' \<mapsto> [''lib1''], ''/b'' \<mapsto> [''lib4'', ''lib5'']], None)
   \<and> libAnalyzers (ex_globals\<lparr>libAnalyzers := []\<rparr>) = []
   \<and> GetLibraries (\<lambda>i. []) (ex_globals\<lparr>libAnalyzers := []\<rparr>) ex_files = (Some Map.empty, None)"
proof -
  let ?g = "ex_globals\<lparr>libAnalyzers := [ex_libC, ex_libA]\<rparr>"
  let ?o1 = "\<lambda>i::nat. if i = 0 then [''/a'', ''/b''] else [''/a'']"
  let ?o2 = "\<lambda>i::nat. if i = 0 then [''/b'', ''/a''] else [''/a'']"
  have h1: "range_valid ?o1 0 (libAnalyzers ?g) ex_files"
    by (auto simp: ex_defs)
  have h2: "range_valid ?o2 0 (libAnalyzers ?g) ex_files"
    by (auto simp: ex_defs)
  have h3: "libAnalyzers (ex_globals\<lparr>libAnalyzers := []\<rparr>) = []"
    by simp
  from GetLibraries_deterministic [of ?o1 ?g ex_files ?o2] h1 h2
  have c1: "GetLibraries ?o1 ?g ex_files = GetLibraries ?o2 ?g ex_files"
    by blast
  have v: "GetLibraries ?o2 ?g ex_files
     = (Some [''/a'' \<mapsto> [''lib1''], ''/b'' \<mapsto> [''lib4'', ''lib5'']], None)"
    by (auto simp: GetLibraries_def range_assign_def ex_defs fun_eq_iff)
  from GetLibraries_deterministic [of _ "ex_globals\<lparr>libAnalyzers := []\<rparr>" ex_files "\<lambda>i. []"] h3
  have c2: "GetLibraries (\<lambda>i. []) (ex_globals\<lparr>libAnalyzers := []\<rparr>) ex_files = (Some Map.empty, None)"
    by blast
  from h1 h2 h3 c1 v c2 show ?thesis by blast
qed

end
